theory Spec2Isabelle
  imports Complex_Main "HOL-Library.AList"
begin

section \<open>Python values that reach the two functions\<close>

text \<open>
  \<^verbatim>\<open>highway_chainage_analysis.py\<close> reads \<^verbatim>\<open>mean_temp\<close> from a CSV file with
  pandas, so \<^verbatim>\<open>determine_vg_grade\<close> receives a number (a 64-bit float, or an integer
  when the column holds integers only) or, for a column that is not numeric, a string.
  A finite number is modelled by its exact value, a real: Python compares a float with
  the integer literals 30, 38 and 45 exactly, without rounding. The three values of a
  float that are not real numbers are constructors of their own.
\<close>

datatype pyfloat = Finite real | PosInf | NegInf | NaN

datatype pyval = Num pyfloat | Str string

datatype error = TypeError | KeyError string

text \<open>\<^verbatim>\<open>x < c\<close> and \<^verbatim>\<open>x > c\<close> for a float \<open>x\<close> and a finite literal \<open>c\<close>:
  every comparison with NaN is false.\<close>

fun float_lt :: "pyfloat \<Rightarrow> real \<Rightarrow> bool" where
  "float_lt (Finite x) c = (x < c)"
| "float_lt NegInf c = True"
| "float_lt PosInf c = False"
| "float_lt NaN c = False"

fun float_gt :: "pyfloat \<Rightarrow> real \<Rightarrow> bool" where
  "float_gt (Finite x) c = (x > c)"
| "float_gt NegInf c = False"
| "float_gt PosInf c = True"
| "float_gt NaN c = False"

section \<open>The grade classifier\<close>

text \<open>
  \<^verbatim>\<open>
  def determine_vg_grade(mean_temp):
      if mean_temp < 30:
          return "VG-10"
      elif mean_temp < 38:
          return "VG-20"
      elif mean_temp < 45:
          return "VG-30"
      elif mean_temp > 45:
          return "VG-40"
      else:
          return "VG-50"
  \<close>
  On a string the first comparison, \<^verbatim>\<open>str < int\<close>, raises \<^verbatim>\<open>TypeError\<close>.
\<close>

fun determine_vg_grade :: "pyval \<Rightarrow> error + string" where
  "determine_vg_grade (Str s) = Inl TypeError"
| "determine_vg_grade (Num mean_temp) = Inr
     (if float_lt mean_temp 30 then ''VG-10''
      else if float_lt mean_temp 38 then ''VG-20''
      else if float_lt mean_temp 45 then ''VG-30''
      else if float_gt mean_temp 45 then ''VG-40''
      else ''VG-50'')"

text \<open>The decision policy as section 4.1 of the specification words it, on a real
  temperature: each branch with both of its bounds, tried in the order listed.\<close>

definition spec_classifier :: "real \<Rightarrow> string" where
  "spec_classifier t =
     (if t < 30 then ''VG-10''
      else if 30 \<le> t \<and> t < 38 then ''VG-20''
      else if 38 \<le> t \<and> t < 45 then ''VG-30''
      else if t > 45 then ''VG-40''
      else ''VG-50'')"

definition grade_labels :: "string list" where
  "grade_labels = [''VG-10'', ''VG-20'', ''VG-30'', ''VG-40'', ''VG-50'']"

section \<open>The grade colorizer\<close>

text \<open>
  \<^verbatim>\<open>
  def get_vg_grade_color(vg_grade):
      colors = {"VG-10": "#1f77b4", "VG-20": "#ff7f0e", "VG-30": "#2ca02c",
                "VG-40": "#d62728", "VG-50": "#9467bd"}
      return colors.get(vg_grade, "#7f7f7f")
  \<close>
  The dictionary is an association list in the order of the literal; \<^verbatim>\<open>dict.get\<close>
  with a default is a lookup that falls back to the default. A number is a valid key
  too (it is hashable) and is equal to none of the five string keys.
\<close>

definition colors :: "(pyval \<times> string) list" where
  "colors =
     [(Str ''VG-10'', ''#1f77b4''),
      (Str ''VG-20'', ''#ff7f0e''),
      (Str ''VG-30'', ''#2ca02c''),
      (Str ''VG-40'', ''#d62728''),
      (Str ''VG-50'', ''#9467bd'')]"

definition dict_get :: "('k \<times> 'v) list \<Rightarrow> 'k \<Rightarrow> 'v \<Rightarrow> 'v" where
  "dict_get d k dflt = (case map_of d k of None \<Rightarrow> dflt | Some v \<Rightarrow> v)"

definition get_vg_grade_color :: "pyval \<Rightarrow> string" where
  "get_vg_grade_color vg_grade = dict_get colors vg_grade ''#7f7f7f''"

definition table_colors :: "string list" where
  "table_colors = [''#1f77b4'', ''#ff7f0e'', ''#2ca02c'', ''#d62728'', ''#9467bd'']"

section \<open>Classifier, then colorizer\<close>

text \<open>What lines 64 and 65 of \<^verbatim>\<open>visualize_highway_chainage\<close> compute for one cell of
  \<^verbatim>\<open>mean_temp\<close>: the grade, and the color of that grade.\<close>

definition grade_and_color :: "pyval \<Rightarrow> error + (string \<times> string)" where
  "grade_and_color mean_temp =
     (case determine_vg_grade mean_temp of
        Inl e \<Rightarrow> Inl e
      | Inr vg_grade \<Rightarrow> Inr (vg_grade, get_vg_grade_color (Str vg_grade)))"

section \<open>The segments table\<close>

text \<open>
  A pandas \<^verbatim>\<open>Series\<close> is the list of its cells in index order, a \<^verbatim>\<open>DataFrame\<close> the
  association list of its columns, by name, in column order. \<^verbatim>\<open>df[c]\<close> raises
  \<^verbatim>\<open>KeyError\<close> for a column that is absent; \<^verbatim>\<open>df[c] = s\<close> replaces the column
  \<open>c\<close> in place, or appends it as the last column; \<^verbatim>\<open>s.apply(f)\<close> calls \<open>f\<close> on the
  cells in order, and the first exception ends it.
\<close>

type_synonym series = "pyval list"

type_synonym dataframe = "(string \<times> series) list"

definition getitem :: "dataframe \<Rightarrow> string \<Rightarrow> error + series" where
  "getitem df c = (case map_of df c of None \<Rightarrow> Inl (KeyError c) | Some s \<Rightarrow> Inr s)"

definition setitem :: "dataframe \<Rightarrow> string \<Rightarrow> series \<Rightarrow> dataframe" where
  "setitem df c s = AList.update c s df"

fun apply_series :: "(pyval \<Rightarrow> error + string) \<Rightarrow> series \<Rightarrow> error + series" where
  "apply_series f [] = Inr []"
| "apply_series f (x # xs) =
     (case f x of
        Inl e \<Rightarrow> Inl e
      | Inr y \<Rightarrow> (case apply_series f xs of Inl e \<Rightarrow> Inl e | Inr ys \<Rightarrow> Inr (Str y # ys)))"

text \<open>
  The augmentation step of \<^verbatim>\<open>visualize_highway_chainage\<close> (lines 63 to 65):
  \<^verbatim>\<open>
  segments_df['vg_grade'] = segments_df['mean_temp'].apply(determine_vg_grade)
  segments_df['color'] = segments_df['vg_grade'].apply(get_vg_grade_color)
  \<close>
\<close>

definition augment_segments :: "dataframe \<Rightarrow> error + dataframe" where
  "augment_segments segments_df =
     (case getitem segments_df ''mean_temp'' of
        Inl e \<Rightarrow> Inl e
      | Inr temps \<Rightarrow>
     (case apply_series determine_vg_grade temps of
        Inl e \<Rightarrow> Inl e
      | Inr grades \<Rightarrow>
     (let df1 = setitem segments_df ''vg_grade'' grades in
      case getitem df1 ''vg_grade'' of
        Inl e \<Rightarrow> Inl e
      | Inr vg_grade \<Rightarrow>
     (case apply_series (\<lambda>g. Inr (get_vg_grade_color g)) vg_grade of
        Inl e \<Rightarrow> Inl e
      | Inr cs \<Rightarrow> Inr (setitem df1 ''color'' cs)))))"

text \<open>A table of \<open>n\<close> rows: every column has \<open>n\<close> cells. A numeric cell is a number.\<close>

definition n_rows :: "dataframe \<Rightarrow> nat \<Rightarrow> bool" where
  "n_rows df n = list_all (\<lambda>(c, s). length s = n) df"

fun numeric :: "pyval \<Rightarrow> bool" where
  "numeric (Num x) = True"
| "numeric (Str s) = False"

section \<open>Properties of the classifier\<close>

lemma determine_vg_grade_Finite:
  "determine_vg_grade (Num (Finite t)) = Inr
     (if t < 30 then ''VG-10'' else if t < 38 then ''VG-20''
      else if t < 45 then ''VG-30'' else if t > 45 then ''VG-40'' else ''VG-50'')"
  by simp

text \<open>
  C1. For every real temperature \<open>t\<close> the classifier returns, without an error, the
  grade of the specification's piecewise definition: VG-10 below 30, VG-20 from 30 to
  below 38, VG-30 from 38 to below 45, VG-40 above 45, VG-50 otherwise.
\<close>

theorem determine_vg_grade_refines_spec:
  "determine_vg_grade (Num (Finite t)) = Inr (spec_classifier t)"
  unfolding spec_classifier_def determine_vg_grade_Finite by simp

text \<open>
  C2. At the boundary 45 neither \<open>t < 45\<close> nor \<open>t > 45\<close> holds, and the classifier
  returns VG-50 from its last branch.
\<close>

theorem determine_vg_grade_45:
  "determine_vg_grade (Num (Finite 45)) = Inr ''VG-50''
   \<and> \<not> float_lt (Finite 45) 45 \<and> \<not> float_gt (Finite 45) 45"
  by simp

text \<open>
  C6. The classifier is total on the reals and its range is the five labels: for every
  real \<open>t\<close> it returns a value (no error), and that value is one of VG-10, VG-20, VG-30,
  VG-40, VG-50.
\<close>

theorem determine_vg_grade_total:
  "\<exists>g. determine_vg_grade (Num (Finite t)) = Inr g \<and> g \<in> set grade_labels"
  unfolding determine_vg_grade_Finite grade_labels_def by simp

section \<open>Properties of the colorizer\<close>

text \<open>
  C3. The colorizer returns the table's color for each of the five grade labels.
\<close>

theorem get_vg_grade_color_table:
  "get_vg_grade_color (Str ''VG-10'') = ''#1f77b4''
   \<and> get_vg_grade_color (Str ''VG-20'') = ''#ff7f0e''
   \<and> get_vg_grade_color (Str ''VG-30'') = ''#2ca02c''
   \<and> get_vg_grade_color (Str ''VG-40'') = ''#d62728''
   \<and> get_vg_grade_color (Str ''VG-50'') = ''#9467bd''"
  by (simp add: get_vg_grade_color_def dict_get_def colors_def)

lemma get_vg_grade_color_absent_key:
  "v \<notin> fst ` set colors \<Longrightarrow> get_vg_grade_color v = ''#7f7f7f''"
  by (simp add: get_vg_grade_color_def dict_get_def map_of_eq_None_iff [THEN iffD2])

lemma keys_of_colors: "fst ` set colors = Str ` set grade_labels"
  by (simp add: colors_def grade_labels_def)

text \<open>
  C4. On every string that is not one of the five grade labels the colorizer returns
  the default gray; the function has no error branch, so it is total on strings.
\<close>

theorem get_vg_grade_color_default:
  "s \<notin> set grade_labels \<Longrightarrow> get_vg_grade_color (Str s) = ''#7f7f7f''"
  by (rule get_vg_grade_color_absent_key) (auto simp: keys_of_colors)

theorem get_vg_grade_color_default_witness:
  "''unknown'' \<notin> set grade_labels \<and> get_vg_grade_color (Str ''unknown'') = ''#7f7f7f''"
  using get_vg_grade_color_default [of "''unknown''"] by (simp add: grade_labels_def)

text \<open>
  C10. The lookup compares strings character by character: a string that differs from
  each of the five labels, such as a label in lower case, with a trailing blank or
  without its hyphen, is not a key of the table and gets the default gray.
\<close>

theorem get_vg_grade_color_exact_match:
  assumes "s \<noteq> ''VG-10''" and "s \<noteq> ''VG-20''" and "s \<noteq> ''VG-30''"
    and "s \<noteq> ''VG-40''" and "s \<noteq> ''VG-50''"
  shows "get_vg_grade_color (Str s) = ''#7f7f7f''"
  using assms by (simp add: get_vg_grade_color_def dict_get_def colors_def)

theorem get_vg_grade_color_exact_match_witness:
  "get_vg_grade_color (Str ''vg-10'') = ''#7f7f7f''
   \<and> get_vg_grade_color (Str ''VG-10 '') = ''#7f7f7f''
   \<and> get_vg_grade_color (Str ''VG10'') = ''#7f7f7f''"
  using get_vg_grade_color_exact_match [of "''vg-10''"]
    get_vg_grade_color_exact_match [of "''VG-10 ''"]
    get_vg_grade_color_exact_match [of "''VG10''"]
  by simp

section \<open>Properties of the composition\<close>

text \<open>
  C5. The scenario table: the classifier followed by the colorizer maps 25 to VG-10 and
  #1f77b4, 35 to VG-20 and #ff7f0e, 40 to VG-30 and #2ca02c, 50 to VG-40 and #d62728,
  45 to VG-50 and #9467bd, and 44.999 to VG-30 and #2ca02c.
\<close>

theorem scenario_table:
  "grade_and_color (Num (Finite 25)) = Inr (''VG-10'', ''#1f77b4'')
   \<and> grade_and_color (Num (Finite 35)) = Inr (''VG-20'', ''#ff7f0e'')
   \<and> grade_and_color (Num (Finite 40)) = Inr (''VG-30'', ''#2ca02c'')
   \<and> grade_and_color (Num (Finite 50)) = Inr (''VG-40'', ''#d62728'')
   \<and> grade_and_color (Num (Finite 45)) = Inr (''VG-50'', ''#9467bd'')
   \<and> grade_and_color (Num (Finite 44.999)) = Inr (''VG-30'', ''#2ca02c'')"
  by (simp add: grade_and_color_def get_vg_grade_color_def dict_get_def colors_def)

text \<open>The float that Python reads the literal \<^verbatim>\<open>44.999\<close> as is
  \<open>6333046238501405 / 2 ^ 47\<close>, a little below 44.999; it gets the same grade.\<close>

lemma scenario_nearest_double:
  "grade_and_color (Num (Finite (6333046238501405 / 140737488355328)))
     = Inr (''VG-30'', ''#2ca02c'')"
  by (simp add: grade_and_color_def get_vg_grade_color_def dict_get_def colors_def)

text \<open>
  C9. The composition never takes the colorizer's fallback: for every real \<open>t\<close> the
  color of the grade of \<open>t\<close> is one of the five colors of the table, and is not the
  default gray.
\<close>

theorem composition_never_default:
  "\<exists>g c. grade_and_color (Num (Finite t)) = Inr (g, c)
     \<and> c \<in> set table_colors \<and> c \<noteq> ''#7f7f7f''"
  by (simp add: grade_and_color_def determine_vg_grade_Finite get_vg_grade_color_def
      dict_get_def colors_def table_colors_def)

text \<open>The same holds for the floats that are not real numbers: infinities and NaN.\<close>

lemma composition_never_default_float:
  "\<exists>g c. grade_and_color (Num x) = Inr (g, c)
     \<and> c \<in> set table_colors \<and> c \<noteq> ''#7f7f7f''"
  by (simp add: grade_and_color_def get_vg_grade_color_def dict_get_def colors_def
      table_colors_def)

lemma determine_vg_grade_NaN: "determine_vg_grade (Num NaN) = Inr ''VG-50''"
  by simp

section \<open>Properties of the augmentation step\<close>

lemma apply_series_numeric:
  "list_all numeric xs \<Longrightarrow> \<exists>ys. apply_series determine_vg_grade xs = Inr ys"
proof (induction xs)
  case Nil
  then show ?case by simp
next
  case (Cons x xs)
  then obtain ys where "apply_series determine_vg_grade xs = Inr ys" by auto
  moreover from Cons.prems obtain t where "x = Num t" by (cases x) simp_all
  ultimately show ?case by simp
qed

lemma apply_series_total:
  "apply_series (\<lambda>v. Inr (g v)) xs = Inr (map (\<lambda>v. Str (g v)) xs)"
  by (induction xs) simp_all

lemma getitem_setitem_same: "getitem (setitem df c s) c = Inr s"
  by (simp add: getitem_def setitem_def update_conv')

lemma map_of_setitem: "map_of (setitem df c s) = (map_of df)(c \<mapsto> s)"
  by (simp add: setitem_def update_conv')

lemma n_rows_setitem: "n_rows df n \<Longrightarrow> length s = n \<Longrightarrow> n_rows (setitem df c s) n"
  unfolding n_rows_def setitem_def
  by (induction df) (auto)

lemma n_rows_column: "n_rows df n \<Longrightarrow> map_of df c = Some s \<Longrightarrow> length s = n"
  unfolding n_rows_def by (auto simp: list_all_iff dest!: map_of_SomeD)

lemma keys_setitem: "set (map fst (setitem df c s)) = insert c (set (map fst df))"
  unfolding setitem_def by (auto simp: update_keys)

lemma augment_segments_result:
  assumes temps: "map_of df ''mean_temp'' = Some temps" and num: "list_all numeric temps"
  shows "\<exists>grades. apply_series determine_vg_grade temps = Inr grades
     \<and> augment_segments df =
         Inr (setitem (setitem df ''vg_grade'' grades) ''color''
                (map (\<lambda>g. Str (get_vg_grade_color g)) grades))"
proof -
  from apply_series_numeric [OF num] obtain grades
    where g: "apply_series determine_vg_grade temps = Inr grades" by blast
  have "augment_segments df =
         Inr (setitem (setitem df ''vg_grade'' grades) ''color''
                (map (\<lambda>g. Str (get_vg_grade_color g)) grades))"
    unfolding augment_segments_def
    by (simp add: getitem_def temps g Let_def map_of_setitem apply_series_total)
  with g show ?thesis by blast
qed


lemma apply_series_elementwise:
  "apply_series f xs = Inr ys \<Longrightarrow> \<exists>zs. map f xs = map Inr zs \<and> ys = map Str zs"
proof (induction xs arbitrary: ys)
  case Nil
  then show ?case by simp
next
  case (Cons x xs)
  from Cons.prems obtain y ws where fx: "f x = Inr y" and rest: "apply_series f xs = Inr ws"
    and ys: "ys = Str y # ws"
    by (auto split: sum.splits)
  from Cons.IH [OF rest] obtain zs where "map f xs = map Inr zs" and "ws = map Str zs"
    by blast
  with fx ys have "map f (x # xs) = map Inr (y # zs) \<and> ys = map Str (y # zs)" by simp
  then show ?case by blast
qed

lemma augment_segments_columns:
  assumes temps: "map_of df ''mean_temp'' = Some temps" and num: "list_all numeric temps"
  shows "\<exists>gs. map determine_vg_grade temps = map Inr gs
     \<and> augment_segments df =
         Inr (setitem (setitem df ''vg_grade'' (map Str gs)) ''color''
                (map (\<lambda>g. Str (get_vg_grade_color (Str g))) gs))"
proof -
  from augment_segments_result [OF temps num] obtain grades
    where g: "apply_series determine_vg_grade temps = Inr grades"
      and a: "augment_segments df =
         Inr (setitem (setitem df ''vg_grade'' grades) ''color''
                (map (\<lambda>g. Str (get_vg_grade_color g)) grades))"
    by blast
  from apply_series_elementwise [OF g] obtain gs
    where "map determine_vg_grade temps = map Inr gs" and "grades = map Str gs" by blast
  with a show ?thesis by (auto simp: comp_def)
qed

text \<open>
  C8. Frame condition of the augmentation step. On a table of \<open>n\<close> rows whose
  \<^verbatim>\<open>mean_temp\<close> column is numeric the step succeeds; every column other than
  \<^verbatim>\<open>vg_grade\<close> and \<^verbatim>\<open>color\<close>, so \<^verbatim>\<open>start_km\<close>, \<^verbatim>\<open>end_km\<close> and \<^verbatim>\<open>mean_temp\<close>, is
  left as it was, cell by cell; the columns of the result are those of the input and
  the two new ones; and the result has \<open>n\<close> rows again.
\<close>

theorem augment_segments_frame:
  assumes temps: "map_of df ''mean_temp'' = Some temps" and num: "list_all numeric temps"
    and rows: "n_rows df n"
  shows "\<exists>df'. augment_segments df = Inr df'
     \<and> map_of df' ''start_km'' = map_of df ''start_km''
     \<and> map_of df' ''end_km'' = map_of df ''end_km''
     \<and> map_of df' ''mean_temp'' = map_of df ''mean_temp''
     \<and> (\<forall>c. c \<noteq> ''vg_grade'' \<and> c \<noteq> ''color'' \<longrightarrow> map_of df' c = map_of df c)
     \<and> set (map fst df') = set (map fst df) \<union> {''vg_grade'', ''color''}
     \<and> n_rows df' n"
proof -
  from augment_segments_columns [OF temps num] obtain gs
    where gs: "map determine_vg_grade temps = map Inr gs"
      and a: "augment_segments df =
         Inr (setitem (setitem df ''vg_grade'' (map Str gs)) ''color''
                (map (\<lambda>g. Str (get_vg_grade_color (Str g))) gs))"
    by blast
  let ?df' = "setitem (setitem df ''vg_grade'' (map Str gs)) ''color''
                (map (\<lambda>g. Str (get_vg_grade_color (Str g))) gs)"
  have "length temps = n" using rows temps by (rule n_rows_column)
  moreover have "length gs = length temps" using gs by (metis length_map)
  ultimately have len: "length gs = n" by simp
  have other: "\<forall>c. c \<noteq> ''vg_grade'' \<and> c \<noteq> ''color'' \<longrightarrow> map_of ?df' c = map_of df c"
    by (simp add: map_of_setitem)
  have keys: "set (map fst ?df') = set (map fst df) \<union> {''vg_grade'', ''color''}"
    unfolding keys_setitem by auto
  have "n_rows ?df' n"
    by (intro n_rows_setitem rows) (simp_all add: len)
  with a other keys show ?thesis by simp
qed

theorem augment_segments_frame_witness:
  "map_of [(''start_km'', [Num (Finite 0), Num (Finite 12)]),
           (''end_km'', [Num (Finite 12), Num (Finite 30)]),
           (''mean_temp'', [Num (Finite 25), Num (Finite 45)])] ''mean_temp''
     = Some [Num (Finite 25), Num (Finite 45)]
   \<and> list_all numeric [Num (Finite 25), Num (Finite 45)]
   \<and> n_rows [(''start_km'', [Num (Finite 0), Num (Finite 12)]),
           (''end_km'', [Num (Finite 12), Num (Finite 30)]),
           (''mean_temp'', [Num (Finite 25), Num (Finite 45)])] 2
   \<and> (\<exists>df'. augment_segments
          [(''start_km'', [Num (Finite 0), Num (Finite 12)]),
           (''end_km'', [Num (Finite 12), Num (Finite 30)]),
           (''mean_temp'', [Num (Finite 25), Num (Finite 45)])] = Inr df'
        \<and> map_of df' ''start_km'' = Some [Num (Finite 0), Num (Finite 12)]
        \<and> map_of df' ''end_km'' = Some [Num (Finite 12), Num (Finite 30)]
        \<and> map_of df' ''mean_temp'' = Some [Num (Finite 25), Num (Finite 45)]
        \<and> set (map fst df') = {''start_km'', ''end_km'', ''mean_temp'', ''vg_grade'', ''color''}
        \<and> n_rows df' 2)"
proof -
  let ?df = "[(''start_km'', [Num (Finite 0), Num (Finite 12)]),
           (''end_km'', [Num (Finite 12), Num (Finite 30)]),
           (''mean_temp'', [Num (Finite 25), Num (Finite 45)])]"
  have h1: "map_of ?df ''mean_temp'' = Some [Num (Finite 25), Num (Finite 45)]" by simp
  have h2: "list_all numeric [Num (Finite 25), Num (Finite 45)]" by simp
  have h3: "n_rows ?df 2" by (simp add: n_rows_def)
  from augment_segments_frame [OF h1 h2 h3] obtain df'
    where "augment_segments ?df = Inr df'"
      and "map_of df' ''start_km'' = map_of ?df ''start_km''"
      and "map_of df' ''end_km'' = map_of ?df ''end_km''"
      and "map_of df' ''mean_temp'' = map_of ?df ''mean_temp''"
      and "set (map fst df') = set (map fst ?df) \<union> {''vg_grade'', ''color''}"
      and "n_rows df' 2"
    by blast
  then have "augment_segments ?df = Inr df'
        \<and> map_of df' ''start_km'' = Some [Num (Finite 0), Num (Finite 12)]
        \<and> map_of df' ''end_km'' = Some [Num (Finite 12), Num (Finite 30)]
        \<and> map_of df' ''mean_temp'' = Some [Num (Finite 25), Num (Finite 45)]
        \<and> set (map fst df') = {''start_km'', ''end_km'', ''mean_temp'', ''vg_grade'', ''color''}
        \<and> n_rows df' 2"
    by auto
  then have "\<exists>df'. augment_segments ?df = Inr df'
        \<and> map_of df' ''start_km'' = Some [Num (Finite 0), Num (Finite 12)]
        \<and> map_of df' ''end_km'' = Some [Num (Finite 12), Num (Finite 30)]
        \<and> map_of df' ''mean_temp'' = Some [Num (Finite 25), Num (Finite 45)]
        \<and> set (map fst df') = {''start_km'', ''end_km'', ''mean_temp'', ''vg_grade'', ''color''}
        \<and> n_rows df' 2" ..
  with h1 h2 h3 show ?thesis by (intro conjI)
qed

lemma augment_example:
  "augment_segments
          [(''start_km'', [Num (Finite 0), Num (Finite 12)]),
           (''end_km'', [Num (Finite 12), Num (Finite 30)]),
           (''mean_temp'', [Num (Finite 25), Num (Finite 45)])] =
    Inr [(''start_km'', [Num (Finite 0), Num (Finite 12)]),
           (''end_km'', [Num (Finite 12), Num (Finite 30)]),
           (''mean_temp'', [Num (Finite 25), Num (Finite 45)]),
           (''vg_grade'', [Str ''VG-10'', Str ''VG-50'']),
           (''color'', [Str ''#1f77b4'', Str ''#9467bd''])]"
  by (simp add: augment_segments_def getitem_def setitem_def get_vg_grade_color_def dict_get_def colors_def)


text \<open>
  C7. Per-row independence. Take a table whose \<^verbatim>\<open>mean_temp\<close> column is numeric, and
  a second run on the table that differs from it only in the temperature of another
  row \<open>j \<noteq> i\<close>. Both runs succeed; the \<^verbatim>\<open>vg_grade\<close> column of each is the classifier
  applied cell by cell to its \<^verbatim>\<open>mean_temp\<close> column and the \<^verbatim>\<open>color\<close> column the
  colorizer applied cell by cell to the grades; and row \<open>i\<close> gets the same grade and the
  same color in both runs, the grade of its own temperature.
\<close>

theorem grade_of_row_independent:
  assumes temps: "map_of df ''mean_temp'' = Some temps" and num: "list_all numeric temps"
    and i: "i < length temps" and j: "j < length temps" and ji: "j \<noteq> i"
  shows "\<exists>d1 d2 gs1 gs2.
       augment_segments df = Inr d1
     \<and> augment_segments (setitem df ''mean_temp'' (temps[j := Num v])) = Inr d2
     \<and> map determine_vg_grade temps = map Inr gs1
     \<and> map determine_vg_grade (temps[j := Num v]) = map Inr gs2
     \<and> map_of d1 ''vg_grade'' = Some (map Str gs1)
     \<and> map_of d2 ''vg_grade'' = Some (map Str gs2)
     \<and> map_of d1 ''color'' = Some (map (\<lambda>g. Str (get_vg_grade_color (Str g))) gs1)
     \<and> map_of d2 ''color'' = Some (map (\<lambda>g. Str (get_vg_grade_color (Str g))) gs2)
     \<and> gs1 ! i = gs2 ! i
     \<and> map Str gs1 ! i = map Str gs2 ! i
     \<and> map (\<lambda>g. Str (get_vg_grade_color (Str g))) gs1 ! i
         = map (\<lambda>g. Str (get_vg_grade_color (Str g))) gs2 ! i
     \<and> determine_vg_grade (temps ! i) = Inr (gs1 ! i)"
proof -
  let ?temps' = "temps[j := Num v]"
  let ?df' = "setitem df ''mean_temp'' ?temps'"
  let ?col = "map (\<lambda>g. Str (get_vg_grade_color (Str g)))"
  from augment_segments_columns [OF temps num] obtain gs1
    where m1: "map determine_vg_grade temps = map Inr gs1"
      and a1: "augment_segments df =
         Inr (setitem (setitem df ''vg_grade'' (map Str gs1)) ''color'' (?col gs1))"
    by blast
  have temps': "map_of ?df' ''mean_temp'' = Some ?temps'"
    by (simp add: map_of_setitem)
  have num': "list_all numeric ?temps'"
    using num by (auto simp: list_all_iff dest: set_update_subset_insert [THEN subsetD])
  from augment_segments_columns [OF temps' num'] obtain gs2
    where m2: "map determine_vg_grade ?temps' = map Inr gs2"
      and a2: "augment_segments ?df' =
         Inr (setitem (setitem ?df' ''vg_grade'' (map Str gs2)) ''color'' (?col gs2))"
    by blast
  have l1: "length gs1 = length temps" using m1 by (metis length_map)
  have l2: "length gs2 = length temps" using m2 by (metis length_map length_list_update)
  have e1: "determine_vg_grade (temps ! i) = Inr (gs1 ! i)"
    using m1 i l1 by (metis nth_map)
  have "determine_vg_grade (?temps' ! i) = Inr (gs2 ! i)"
    using m2 i l2 by (metis nth_map length_list_update)
  with ji have e2: "determine_vg_grade (temps ! i) = Inr (gs2 ! i)" by simp
  from e1 e2 have same: "gs1 ! i = gs2 ! i" by simp
  have "map Str gs1 ! i = map Str gs2 ! i" and "?col gs1 ! i = ?col gs2 ! i"
    using same i l1 l2 by simp_all
  with a1 a2 m1 m2 same e1 show ?thesis
    by (simp add: map_of_setitem)
qed

theorem grade_of_row_independent_witness:
  "\<exists>d1 d2.
       augment_segments [(''mean_temp'', [Num (Finite 25), Num (Finite 40)])] = Inr d1
     \<and> augment_segments [(''mean_temp'', [Num (Finite 25), Num (Finite 50)])] = Inr d2
     \<and> map_of d1 ''vg_grade'' = Some [Str ''VG-10'', Str ''VG-30'']
     \<and> map_of d2 ''vg_grade'' = Some [Str ''VG-10'', Str ''VG-40'']
     \<and> map_of d1 ''color'' = Some [Str ''#1f77b4'', Str ''#2ca02c'']
     \<and> map_of d2 ''color'' = Some [Str ''#1f77b4'', Str ''#d62728'']"
proof -
  let ?df = "[(''mean_temp'', [Num (Finite 25), Num (Finite 40)])]"
  let ?temps = "[Num (Finite 25), Num (Finite 40)]"
  have h1: "map_of ?df ''mean_temp'' = Some ?temps" by simp
  have h2: "list_all numeric ?temps" by simp
  have h3: "0 < length ?temps" by simp
  have h4: "1 < length ?temps" by simp
  have h5: "(1::nat) \<noteq> 0" by simp
  from grade_of_row_independent [OF h1 h2 h3 h4 h5, of "Finite 50"] obtain d1 d2 gs1 gs2
    where a1: "augment_segments ?df = Inr d1"
      and a2: "augment_segments (setitem ?df ''mean_temp'' (?temps[1 := Num (Finite 50)])) = Inr d2"
      and m1: "map determine_vg_grade ?temps = map Inr gs1"
      and m2: "map determine_vg_grade (?temps[1 := Num (Finite 50)]) = map Inr gs2"
      and g1: "map_of d1 ''vg_grade'' = Some (map Str gs1)"
      and g2: "map_of d2 ''vg_grade'' = Some (map Str gs2)"
      and c1: "map_of d1 ''color'' = Some (map (\<lambda>g. Str (get_vg_grade_color (Str g))) gs1)"
      and c2: "map_of d2 ''color'' = Some (map (\<lambda>g. Str (get_vg_grade_color (Str g))) gs2)"
    by blast
  from m1 have gs1: "gs1 = [''VG-10'', ''VG-30'']"
    by (cases gs1; cases "tl gs1") auto
  from m2 have gs2: "gs2 = [''VG-10'', ''VG-40'']"
    by (cases gs2; cases "tl gs2") auto
  have a2': "augment_segments [(''mean_temp'', [Num (Finite 25), Num (Finite 50)])] = Inr d2"
    using a2 by (simp add: setitem_def)
  have "augment_segments ?df = Inr d1
     \<and> augment_segments [(''mean_temp'', [Num (Finite 25), Num (Finite 50)])] = Inr d2
     \<and> map_of d1 ''vg_grade'' = Some [Str ''VG-10'', Str ''VG-30'']
     \<and> map_of d2 ''vg_grade'' = Some [Str ''VG-10'', Str ''VG-40'']
     \<and> map_of d1 ''color'' = Some [Str ''#1f77b4'', Str ''#2ca02c'']
     \<and> map_of d2 ''color'' = Some [Str ''#1f77b4'', Str ''#d62728'']"
    using a1 a2' g1 g2 c1 c2 unfolding gs1 gs2
    by (simp add: get_vg_grade_color_def dict_get_def colors_def)
  then show ?thesis by blast
qed

end
